theory Spec2Isabelle
  imports Complex_Main "HOL-Library.Log_Nat"
begin

section \<open>Python values held in the JSON payload\<close>

text \<open>
  The \<open>data\<close> field of every billing model is a JSON payload decoded into Python
  values. A character of a \<open>string\<close> stands for one code point below 256. A dict is
  kept as its list of items in insertion order, and a lookup takes the first item
  with the key. A float is a binary64 value: \<open>Finite n k\<close> is the number
  \<open>n / 2 ^ k\<close> in lowest terms (what \<open>float.as_integer_ratio\<close> returns), and the
  values that are no such fraction have constructors of their own.
\<close>

datatype pyfloat = Finite int nat | NegZero | PosInf | NegInf | NaN

datatype pyval =
    PNone
  | PBool bool
  | PInt int
  | PFloat pyfloat
  | PStr string
  | PList "pyval list"
  | PDict "(string \<times> pyval) list"

datatype py_exception =
    KeyError | IndexError | TypeError | AttributeError | ValueError | OverflowError
  | DatabaseError

type_synonym 'a result = "py_exception + 'a"

text \<open>Truth value of a Python value, as \<open>if\<close> and \<open>and\<close> test it.\<close>

fun float_truthy :: "pyfloat \<Rightarrow> bool" where
  "float_truthy (Finite n k) = (n \<noteq> 0)"
| "float_truthy NegZero = False"
| "float_truthy PosInf = True"
| "float_truthy NegInf = True"
| "float_truthy NaN = True"

fun truthy :: "pyval \<Rightarrow> bool" where
  "truthy PNone = False"
| "truthy (PBool b) = b"
| "truthy (PInt n) = (n \<noteq> 0)"
| "truthy (PFloat f) = float_truthy f"
| "truthy (PStr s) = (s \<noteq> [])"
| "truthy (PList xs) = (xs \<noteq> [])"
| "truthy (PDict kvs) = (kvs \<noteq> [])"

text \<open>
  \<open>d.get(k, default)\<close>: only a dict has the method; on any other value the attribute
  lookup raises AttributeError.
\<close>

fun py_get :: "pyval \<Rightarrow> string \<Rightarrow> pyval \<Rightarrow> pyval result" where
  "py_get (PDict kvs) k dflt = (case map_of kvs k of Some v \<Rightarrow> Inr v | None \<Rightarrow> Inr dflt)"
| "py_get _ k dflt = Inl AttributeError"

text \<open>
  \<open>v[k]\<close> with a string key and \<open>v[i]\<close> with an integer index. A dict decoded from
  JSON has string keys only, so an integer subscript of a dict is a KeyError. A
  negative index counts from the end of a list or string.
\<close>

definition py_index :: "'a list \<Rightarrow> int \<Rightarrow> 'a result" where
  "py_index xs i =
     (if 0 \<le> i \<and> i < int (length xs) then Inr (xs ! nat i)
      else if i < 0 \<and> - i \<le> int (length xs) then Inr (xs ! nat (int (length xs) + i))
      else Inl IndexError)"

fun getitem_key :: "pyval \<Rightarrow> string \<Rightarrow> pyval result" where
  "getitem_key (PDict kvs) k = (case map_of kvs k of Some v \<Rightarrow> Inr v | None \<Rightarrow> Inl KeyError)"
| "getitem_key _ k = Inl TypeError"

fun getitem_int :: "pyval \<Rightarrow> int \<Rightarrow> pyval result" where
  "getitem_int (PList xs) i = py_index xs i"
| "getitem_int (PStr s) i = (case py_index s i of Inl e \<Rightarrow> Inl e | Inr c \<Rightarrow> Inr (PStr [c]))"
| "getitem_int (PDict kvs) i = Inl KeyError"
| "getitem_int _ i = Inl TypeError"

text \<open>
  Iteration, as a list comprehension does it: a list yields its elements, a string
  its characters, a dict its keys; nothing else in a JSON payload is iterable.
\<close>

fun py_iter :: "pyval \<Rightarrow> pyval list result" where
  "py_iter (PList xs) = Inr xs"
| "py_iter (PStr s) = Inr (map (\<lambda>c. PStr [c]) s)"
| "py_iter (PDict kvs) = Inr (map (\<lambda>kv. PStr (fst kv)) kvs)"
| "py_iter _ = Inl TypeError"

subsection \<open>\<open>int(x)\<close>\<close>

text \<open>
  \<open>int\<close> of a string strips white space, takes one optional sign and then decimal
  digits, where single underscores may stand between digits; anything else is a
  ValueError. The interpreter's limit on the length of the digit string (4300 by
  default since Python 3.11, configurable, absent before) is not part of the model.
  \<open>int\<close> of a float truncates towards zero.
\<close>

definition is_space :: "char \<Rightarrow> bool" where
  "is_space c = (let n = (of_char c :: nat) in (9 \<le> n \<and> n \<le> 13) \<or> n = 32 \<or> n = 133 \<or> n = 160)"

definition is_digit :: "char \<Rightarrow> bool" where
  "is_digit c = (let n = (of_char c :: nat) in 48 \<le> n \<and> n \<le> 57)"

definition digit_value :: "char \<Rightarrow> int" where
  "digit_value c = int (of_char c) - 48"

fun parse_digits :: "int \<Rightarrow> string \<Rightarrow> int option" where
  "parse_digits acc [] = Some acc"
| "parse_digits acc (c # cs) =
     (if is_digit c then parse_digits (10 * acc + digit_value c) cs
      else if c = CHR ''_'' then
        (case cs of [] \<Rightarrow> None
         | d # ds \<Rightarrow> if is_digit d then parse_digits acc cs else None)
      else None)"

definition parse_unsigned :: "string \<Rightarrow> int option" where
  "parse_unsigned s =
     (case s of [] \<Rightarrow> None
      | c # cs \<Rightarrow> if is_digit c then parse_digits 0 s else None)"

definition strip :: "string \<Rightarrow> string" where
  "strip s = rev (dropWhile is_space (rev (dropWhile is_space s)))"

definition int_of_str :: "string \<Rightarrow> int result" where
  "int_of_str s =
     (let t = strip s;
          r = (case t of
                 [] \<Rightarrow> None
               | c # cs \<Rightarrow>
                   if c = CHR ''-'' then map_option uminus (parse_unsigned cs)
                   else if c = CHR ''+'' then parse_unsigned cs
                   else parse_unsigned t)
      in case r of None \<Rightarrow> Inl ValueError | Some n \<Rightarrow> Inr n)"

subsection \<open>\<open>n / d\<close> on integers: the nearest binary64\<close>

text \<open>
  True division of integers gives the binary64 value nearest to the quotient, ties
  to the even significand, and raises OverflowError when that value is beyond the
  largest finite float. \<open>round_binary64 a b\<close> rounds the positive fraction \<open>a / b\<close>.
\<close>

definition floor_log2 :: "int \<Rightarrow> int \<Rightarrow> int" where
  "floor_log2 a b =
     (let k = bitlen a - bitlen b
      in if b * 2 ^ nat k \<le> a * 2 ^ nat (- k) then k else k - 1)"

definition round_half_even :: "int \<Rightarrow> int \<Rightarrow> int" where
  "round_half_even num den =
     (let q = num div den; r = num mod den
      in if 2 * r < den then q
         else if den < 2 * r then q + 1
         else if even q then q else q + 1)"

fun lowest_terms :: "int \<Rightarrow> nat \<Rightarrow> int \<times> nat" where
  "lowest_terms m 0 = (m, 0)"
| "lowest_terms m (Suc k) = (if even m then lowest_terms (m div 2) k else (m, Suc k))"

definition round_binary64 :: "int \<Rightarrow> int \<Rightarrow> int \<times> nat" where
  "round_binary64 a b =
     (let e = max (floor_log2 a b) (- 1022);
          s = 52 - e;
          m = round_half_even (a * 2 ^ nat s) (b * 2 ^ nat (- s))
      in lowest_terms (m * 2 ^ nat (- s)) (nat s))"

definition int_true_div :: "int \<Rightarrow> int \<Rightarrow> pyfloat result" where
  "int_true_div n d =
     (if n = 0 then Inr (Finite 0 0)
      else
        let (m, k) = round_binary64 \<bar>n\<bar> d
        in if 2 ^ 1024 * 2 ^ k \<le> m then Inl OverflowError
           else Inr (Finite (if n < 0 then - m else m) k))"


fun float_trunc :: "pyfloat \<Rightarrow> int result" where
  "float_trunc (Finite n k) = Inr (if n < 0 then - (- n div 2 ^ k) else n div 2 ^ k)"
| "float_trunc NegZero = Inr 0"
| "float_trunc PosInf = Inl OverflowError"
| "float_trunc NegInf = Inl OverflowError"
| "float_trunc NaN = Inl ValueError"

subsection \<open>\<open>str(x)\<close> and \<open>repr(x)\<close>\<close>

text \<open>
  The text of a float is the shortest decimal string that rounds back to it (the
  nearest to it among the shortest), in positional notation when the decimal point
  lies within sixteen digits and above \<open>1e-4\<close>, in exponent notation otherwise.
\<close>

function digits :: "int \<Rightarrow> string" where
  "digits n =
     (if n < 10 then [char_of (48 + n)] else digits (n div 10) @ [char_of (48 + n mod 10)])"
  by pat_completeness auto
termination
  by (relation "measure nat") auto

definition int_str :: "int \<Rightarrow> string" where
  "int_str i = (if i < 0 then CHR ''-'' # digits (- i) else digits i)"

definition decimal_point :: "int \<Rightarrow> nat \<Rightarrow> int" where
  "decimal_point a k =
     (if 2 ^ k \<le> a then int (length (digits (a div 2 ^ k)))
      else 1 - int (length (digits (2 ^ k div a))))"

definition digits_for :: "int \<Rightarrow> nat \<Rightarrow> int \<Rightarrow> nat \<Rightarrow> int option" where
  "digits_for a k p nd =
     (let up = nat (int nd - p); down = nat (p - int nd);
          num = a * 10 ^ up; den = 2 ^ k * 10 ^ down;
          lo = num div den; hi = lo + 1;
          lo_ok = (round_binary64 (lo * 10 ^ down) (10 ^ up) = (a, k));
          hi_ok = (round_binary64 (hi * 10 ^ down) (10 ^ up) = (a, k))
      in if lo_ok \<and> hi_ok then Some (round_half_even num den)
         else if lo_ok then Some lo
         else if hi_ok then Some hi
         else None)"

fun shortest_digits :: "int \<Rightarrow> nat \<Rightarrow> int \<Rightarrow> nat \<Rightarrow> nat \<Rightarrow> int \<times> nat" where
  "shortest_digits a k p nd 0 =
     (let up = nat (int nd - p); down = nat (p - int nd)
      in (round_half_even (a * 10 ^ up) (2 ^ k * 10 ^ down), nd))"
| "shortest_digits a k p nd (Suc fuel) =
     (case digits_for a k p nd of
        Some m \<Rightarrow> (m, nd)
      | None \<Rightarrow> shortest_digits a k p (Suc nd) fuel)"

definition strip_zeros :: "string \<Rightarrow> string" where
  "strip_zeros ds = rev (dropWhile (\<lambda>c. c = CHR ''0'') (rev ds))"

definition format_repr :: "string \<Rightarrow> int \<Rightarrow> string" where
  "format_repr ds decpt =
     (let n = int (length ds)
      in if - 4 < decpt \<and> decpt \<le> 16 then
           (if decpt \<le> 0 then ''0.'' @ replicate (nat (- decpt)) CHR ''0'' @ ds
            else if n \<le> decpt then ds @ replicate (nat (decpt - n)) CHR ''0'' @ ''.0''
            else take (nat decpt) ds @ ''.'' @ drop (nat decpt) ds)
         else
           (let ex = decpt - 1; es = digits \<bar>ex\<bar>
            in take 1 ds @ (if 1 < n then ''.'' @ drop 1 ds else [])
               @ ''e'' @ (if ex < 0 then ''-'' else ''+'')
               @ (if length es < 2 then ''0'' @ es else es)))"

definition positive_repr :: "int \<Rightarrow> nat \<Rightarrow> string" where
  "positive_repr a k =
     (let p = decimal_point a k;
          (m, nd) = shortest_digits a k p 1 16;
          ds = digits m
      in format_repr (strip_zeros ds) (p + (int (length ds) - int nd)))"

fun float_repr :: "pyfloat \<Rightarrow> string" where
  "float_repr (Finite n k) =
     (if n = 0 then ''0.0''
      else if n < 0 then ''-'' @ positive_repr (- n) k
      else positive_repr n k)"
| "float_repr NegZero = ''-0.0''"
| "float_repr PosInf = ''inf''"
| "float_repr NegInf = ''-inf''"
| "float_repr NaN = ''nan''"

text \<open>
  The text of a string inside a list or dict is quoted and escaped; an f-string
  field and \<open>str\<close> print a string as it is and everything else by its \<open>repr\<close>.
\<close>

definition hex_digit :: "nat \<Rightarrow> char" where
  "hex_digit n = (if n < 10 then char_of (48 + n) else char_of (87 + n))"

definition escape_char :: "char \<Rightarrow> char \<Rightarrow> string" where
  "escape_char quote c =
     (let n = (of_char c :: nat)
      in if c = quote \<or> n = 92 then [CHR 0x5C, c]
         else if n = 9 then [CHR 0x5C, CHR ''t'']
         else if n = 10 then [CHR 0x5C, CHR ''n'']
         else if n = 13 then [CHR 0x5C, CHR ''r'']
         else if n < 32 \<or> n = 127 \<or> (128 \<le> n \<and> n \<le> 160) \<or> n = 173
           then [CHR 0x5C, CHR ''x'', hex_digit (n div 16), hex_digit (n mod 16)]
         else [c])"

definition str_repr :: "string \<Rightarrow> string" where
  "str_repr s =
     (let quote = (if CHR 0x27 \<in> set s \<and> CHR 0x22 \<notin> set s then CHR 0x22 else CHR 0x27)
      in quote # concat (map (escape_char quote) s) @ [quote])"

fun join :: "string \<Rightarrow> string list \<Rightarrow> string" where
  "join sep [] = []"
| "join sep [x] = x"
| "join sep (x # y # ys) = x @ sep @ join sep (y # ys)"

fun py_repr :: "pyval \<Rightarrow> string" where
  "py_repr PNone = ''None''"
| "py_repr (PBool b) = (if b then ''True'' else ''False'')"
| "py_repr (PInt i) = int_str i"
| "py_repr (PFloat f) = float_repr f"
| "py_repr (PStr s) = str_repr s"
| "py_repr (PList xs) = ''['' @ join '', '' (map py_repr xs) @ '']''"
| "py_repr (PDict kvs) =
     ''{'' @ join '', '' (map (\<lambda>kv. str_repr (fst kv) @ '': '' @ py_repr (snd kv)) kvs) @ ''}''"

fun py_str :: "pyval \<Rightarrow> string" where
  "py_str (PStr s) = s"
| "py_str v = py_repr v"

fun py_int :: "pyval \<Rightarrow> int result" where
  "py_int (PInt i) = Inr i"
| "py_int (PBool b) = Inr (if b then 1 else 0)"
| "py_int (PFloat f) = float_trunc f"
| "py_int (PStr s) = int_of_str s"
| "py_int _ = Inl TypeError"

section \<open>Model instances and application state\<close>

text \<open>
  Each admin method receives \<open>obj\<close>, which is \<open>None\<close> or a model instance. The
  methods read two attributes of it: the JSON payload \<open>data\<close> and, on Address and
  Transaction, the related \<open>customer\<close> (\<open>None\<close> or a Customer, whose \<open>email\<close> is
  read). A model instance is always truthy. What the ORM does beneath an attribute
  read is below this model: an attribute is a field of the record.
\<close>

record customer =
  email :: string

record model_instance =
  data :: pyval
  customer :: "customer option"

record product =
  product_id :: string
  name :: string

text \<open>
  The state outside the object: the two settings the module reads
  (\<open>ADMIN_READONLY\<close>, a bool, and \<open>INSTALLED_APPS\<close>, a list of strings) and the
  answer of the database to \<open>Product.objects.filter(id__in=ids)\<close> when the query
  set is iterated, a list of rows or an exception.
\<close>

record world =
  ADMIN_READONLY :: bool
  INSTALLED_APPS :: "string list"
  Product_objects_filter_id_in :: "pyval list \<Rightarrow> product list result"

text \<open>Sequencing of steps that may raise: the first exception ends the evaluation.\<close>

fun and_then :: "'a result \<Rightarrow> ('a \<Rightarrow> 'b result) \<Rightarrow> 'b result" where
  "and_then (Inl e) f = Inl e"
| "and_then (Inr x) f = f x"

section \<open>Module level: the choice of the admin base classes\<close>

datatype admin_package = unfold_admin | django_contrib_admin

record admin_classes =
  ModelAdmin :: admin_package
  StackedInline :: admin_package
  TabularInline :: admin_package

definition import_admin_classes :: "world \<Rightarrow> admin_classes" where
  "import_admin_classes w =
     (if ''unfold'' \<in> set (INSTALLED_APPS w)
      then \<lparr>ModelAdmin = unfold_admin, StackedInline = unfold_admin, TabularInline = unfold_admin\<rparr>
      else \<lparr>ModelAdmin = django_contrib_admin, StackedInline = django_contrib_admin,
            TabularInline = django_contrib_admin\<rparr>)"

section \<open>AddressAdmin\<close>

definition AddressAdmin_has_change_permission :: "world \<Rightarrow> 'r \<Rightarrow> model_instance option \<Rightarrow> bool" where
  "AddressAdmin_has_change_permission w request obj = ADMIN_READONLY w"

definition AddressAdmin_customer_email :: "model_instance option \<Rightarrow> pyval result" where
  "AddressAdmin_customer_email obj =
     (case obj of
        None \<Rightarrow> Inr (PStr '''')
      | Some ob \<Rightarrow>
          (case customer ob of
             None \<Rightarrow> Inr (PStr '''')
           | Some c \<Rightarrow> Inr (PStr (email c))))"

definition AddressAdmin_postal_code :: "model_instance option \<Rightarrow> pyval result" where
  "AddressAdmin_postal_code obj =
     (case obj of
        None \<Rightarrow> Inr (PStr '''')
      | Some ob \<Rightarrow>
          if truthy (data ob) then py_get (data ob) ''postal_code'' (PStr '''')
          else Inr (PStr ''''))"

definition AddressAdmin_status :: "model_instance option \<Rightarrow> pyval result" where
  "AddressAdmin_status obj =
     (case obj of
        None \<Rightarrow> Inr (PStr '''')
      | Some ob \<Rightarrow>
          if truthy (data ob) then py_get (data ob) ''status'' (PStr '''')
          else Inr (PStr ''''))"

section \<open>BusinessAdmin, ProductAdmin, SubscriptionAdmin\<close>

definition BusinessAdmin_has_change_permission :: "world \<Rightarrow> 'r \<Rightarrow> model_instance option \<Rightarrow> bool" where
  "BusinessAdmin_has_change_permission w request obj = (\<not> ADMIN_READONLY w)"

definition ProductAdmin_has_change_permission :: "world \<Rightarrow> 'r \<Rightarrow> model_instance option \<Rightarrow> bool" where
  "ProductAdmin_has_change_permission w request obj = (\<not> ADMIN_READONLY w)"

definition SubscriptionAdmin_has_change_permission :: "world \<Rightarrow> 'r \<Rightarrow> model_instance option \<Rightarrow> bool" where
  "SubscriptionAdmin_has_change_permission w request obj = (\<not> ADMIN_READONLY w)"

section \<open>PriceAdmin\<close>

text \<open>
  \<open>description\<close>, \<open>name\<close> and \<open>status\<close> of PriceAdmin (and \<open>status\<close> of
  CustomerAdmin below) end after their \<open>if\<close>: when the test fails the method falls
  off its end and returns \<open>None\<close>.
\<close>

definition PriceAdmin_has_change_permission :: "world \<Rightarrow> 'r \<Rightarrow> model_instance option \<Rightarrow> bool" where
  "PriceAdmin_has_change_permission w request obj = (\<not> ADMIN_READONLY w)"

definition PriceAdmin_billing_cycle :: "model_instance option \<Rightarrow> pyval result" where
  "PriceAdmin_billing_cycle obj =
     (case obj of
        None \<Rightarrow> Inr (PStr '''')
      | Some ob \<Rightarrow>
          if \<not> truthy (data ob) then Inr (PStr '''')
          else
            and_then (py_get (data ob) ''billing_cycle'' PNone) (\<lambda>g.
              if \<not> truthy g then Inr (PStr '''')
              else
                and_then (getitem_key (data ob) ''billing_cycle'') (\<lambda>b1.
                and_then (getitem_key b1 ''frequency'') (\<lambda>frequency.
                and_then (getitem_key (data ob) ''billing_cycle'') (\<lambda>b2.
                and_then (getitem_key b2 ''interval'') (\<lambda>interval.
                  Inr (PStr (py_str frequency @ '' '' @ py_str interval))))))))"

definition PriceAdmin_description :: "model_instance option \<Rightarrow> pyval result" where
  "PriceAdmin_description obj =
     (case obj of
        None \<Rightarrow> Inr PNone
      | Some ob \<Rightarrow>
          if truthy (data ob) then py_get (data ob) ''description'' (PStr '''')
          else Inr PNone)"

definition PriceAdmin_name :: "model_instance option \<Rightarrow> pyval result" where
  "PriceAdmin_name obj =
     (case obj of
        None \<Rightarrow> Inr PNone
      | Some ob \<Rightarrow>
          if truthy (data ob) then py_get (data ob) ''name'' (PStr '''')
          else Inr PNone)"

definition PriceAdmin_status :: "model_instance option \<Rightarrow> pyval result" where
  "PriceAdmin_status obj =
     (case obj of
        None \<Rightarrow> Inr PNone
      | Some ob \<Rightarrow>
          if truthy (data ob) then py_get (data ob) ''status'' (PStr '''')
          else Inr PNone)"

definition PriceAdmin_trial_period :: "model_instance option \<Rightarrow> pyval result" where
  "PriceAdmin_trial_period obj =
     (case obj of
        None \<Rightarrow> Inr (PStr '''')
      | Some ob \<Rightarrow>
          if \<not> truthy (data ob) then Inr (PStr '''')
          else
            and_then (py_get (data ob) ''trial_period'' PNone) (\<lambda>g.
              if \<not> truthy g then Inr (PStr '''')
              else
                and_then (getitem_key (data ob) ''trial_period'') (\<lambda>t1.
                and_then (getitem_key t1 ''frequency'') (\<lambda>frequency.
                and_then (getitem_key (data ob) ''trial_period'') (\<lambda>t2.
                and_then (getitem_key t2 ''interval'') (\<lambda>interval.
                  Inr (PStr (py_str frequency @ '' '' @ py_str interval))))))))"

definition PriceAdmin_unit_price :: "model_instance option \<Rightarrow> pyval result" where
  "PriceAdmin_unit_price obj =
     (case obj of
        None \<Rightarrow> Inr (PStr '''')
      | Some ob \<Rightarrow>
          if \<not> truthy (data ob) then Inr (PStr '''')
          else
            and_then (py_get (data ob) ''unit_price'' PNone) (\<lambda>g.
              if \<not> truthy g then Inr (PStr '''')
              else
                and_then (getitem_key (data ob) ''unit_price'') (\<lambda>u1.
                and_then (getitem_key u1 ''amount'') (\<lambda>amount.
                and_then (py_int amount) (\<lambda>n.
                and_then (int_true_div n 100) (\<lambda>x.
                and_then (getitem_key (data ob) ''unit_price'') (\<lambda>u2.
                and_then (getitem_key u2 ''currency_code'') (\<lambda>currency_code.
                  Inr (PStr (float_repr x @ '' '' @ py_str currency_code))))))))))"

section \<open>CustomerAdmin\<close>

definition CustomerAdmin_has_change_permission :: "world \<Rightarrow> 'r \<Rightarrow> model_instance option \<Rightarrow> bool" where
  "CustomerAdmin_has_change_permission w request obj = (\<not> ADMIN_READONLY w)"

definition CustomerAdmin_status :: "model_instance option \<Rightarrow> pyval result" where
  "CustomerAdmin_status obj =
     (case obj of
        None \<Rightarrow> Inr PNone
      | Some ob \<Rightarrow>
          if truthy (data ob) then py_get (data ob) ''status'' (PStr '''')
          else Inr PNone)"

section \<open>TransactionAdmin\<close>

text \<open>
  \<open>payment_amount\<close>, \<open>payment_method\<close> and \<open>date_paid\<close> wrap their reads in
  \<open>try: ... except Exception: return ""\<close>: every exception of the model is an
  \<open>Exception\<close>, so each of them ends the method with the empty string.
  \<open>payment_amount\<close> returns the quotient itself, a float.
\<close>

definition TransactionAdmin_has_change_permission :: "world \<Rightarrow> 'r \<Rightarrow> model_instance option \<Rightarrow> bool" where
  "TransactionAdmin_has_change_permission w request obj = (\<not> ADMIN_READONLY w)"

definition TransactionAdmin_customer_email :: "model_instance option \<Rightarrow> pyval result" where
  "TransactionAdmin_customer_email obj =
     (case obj of
        None \<Rightarrow> Inr (PStr '''')
      | Some ob \<Rightarrow>
          (case customer ob of
             None \<Rightarrow> Inr (PStr '''')
           | Some c \<Rightarrow> Inr (PStr (email c))))"

definition TransactionAdmin_payment_amount :: "model_instance option \<Rightarrow> pyval result" where
  "TransactionAdmin_payment_amount obj =
     (case obj of
        None \<Rightarrow> Inr (PStr '''')
      | Some ob \<Rightarrow>
          if truthy (data ob) then
            (case and_then (getitem_key (data ob) ''details'') (\<lambda>details.
                  and_then (getitem_key details ''totals'') (\<lambda>totals.
                  and_then (getitem_key totals ''total'') (\<lambda>total.
                  and_then (py_int total) (\<lambda>n.
                    int_true_div n 100))))
             of Inl e \<Rightarrow> Inr (PStr '''')
              | Inr x \<Rightarrow> Inr (PFloat x))
          else Inr (PStr ''''))"

definition TransactionAdmin_payment_method :: "model_instance option \<Rightarrow> pyval result" where
  "TransactionAdmin_payment_method obj =
     (case obj of
        None \<Rightarrow> Inr (PStr '''')
      | Some ob \<Rightarrow>
          if truthy (data ob) then
            (case and_then (getitem_key (data ob) ''payments'') (\<lambda>p1.
                  and_then (getitem_int p1 0) (\<lambda>q1.
                  and_then (getitem_key q1 ''method_details'') (\<lambda>m1.
                  and_then (getitem_key m1 ''card'') (\<lambda>c1.
                  and_then (getitem_key c1 ''type'') (\<lambda>type.
                  and_then (getitem_key (data ob) ''payments'') (\<lambda>p2.
                  and_then (getitem_int p2 0) (\<lambda>q2.
                  and_then (getitem_key q2 ''method_details'') (\<lambda>m2.
                  and_then (getitem_key m2 ''card'') (\<lambda>c2.
                  and_then (getitem_key c2 ''last4'') (\<lambda>last4.
                    Inr (PStr (py_str type @ '' '' @ py_str last4))))))))))))
             of Inl e \<Rightarrow> Inr (PStr '''')
              | Inr v \<Rightarrow> Inr v)
          else Inr (PStr ''''))"

definition TransactionAdmin_date_paid :: "model_instance option \<Rightarrow> pyval result" where
  "TransactionAdmin_date_paid obj =
     (case obj of
        None \<Rightarrow> Inr (PStr '''')
      | Some ob \<Rightarrow>
          if truthy (data ob) then
            (case and_then (getitem_key (data ob) ''payments'') (\<lambda>payments.
                  and_then (getitem_int payments 0) (\<lambda>payment.
                    getitem_key payment ''captured_at''))
             of Inl e \<Rightarrow> Inr (PStr '''')
              | Inr v \<Rightarrow> Inr v)
          else Inr (PStr ''''))"

text \<open>The comprehension \<open>[item["price"]["product_id"] for item in items]\<close>.\<close>

fun item_product_ids :: "pyval list \<Rightarrow> pyval list result" where
  "item_product_ids [] = Inr []"
| "item_product_ids (item # rest) =
     and_then (getitem_key item ''price'') (\<lambda>price.
     and_then (getitem_key price ''product_id'') (\<lambda>i.
     and_then (item_product_ids rest) (\<lambda>ids.
       Inr (i # ids))))"

definition TransactionAdmin_products :: "world \<Rightarrow> model_instance option \<Rightarrow> pyval result" where
  "TransactionAdmin_products w obj =
     (case obj of
        None \<Rightarrow> Inr (PStr '''')
      | Some ob \<Rightarrow>
          if truthy (data ob) then
            and_then (py_get (data ob) ''items'' (PList [])) (\<lambda>items.
            and_then (py_iter items) (\<lambda>its.
            and_then (item_product_ids its) (\<lambda>ids.
            and_then (Product_objects_filter_id_in w ids) (\<lambda>products.
              Inr (PStr (join '', '' (map name products)))))))
          else Inr (PStr ''''))"

definition TransactionAdmin_status :: "model_instance option \<Rightarrow> pyval result" where
  "TransactionAdmin_status obj =
     (case obj of
        None \<Rightarrow> Inr (PStr '''')
      | Some ob \<Rightarrow>
          if truthy (data ob) then py_get (data ob) ''status'' (PStr '''')
          else Inr (PStr ''''))"

section \<open>A call of an admin method as a step on the state\<close>






section \<open>Facts about the arithmetic\<close>










text \<open>Values of the model at the inputs of the examples, computed by the kernel.\<close>

lemma int_of_str_1999: "int_of_str ''1999'' = Inr 1999"
  by code_simp

lemma int_true_div_1999: "int_true_div 1999 100 = Inr (Finite 5626684784446013 48)"
  by code_simp

lemma float_repr_1999: "float_repr (Finite 5626684784446013 48) = ''19.99''"
  by code_simp




text \<open>
  Shape of the results: the three methods with an exception handler always return,
  and a method that builds its result with an f-string or \<open>join\<close> returns a string
  whenever it returns.
\<close>

lemma and_then_Inr_iff: "and_then r f = Inr v \<longleftrightarrow> (\<exists>x. r = Inr x \<and> f x = Inr v)"
  by (cases r) simp_all




lemma payment_amount_kind:
  "TransactionAdmin_payment_amount obj = Inr v \<Longrightarrow> v = PStr '''' \<or> (\<exists>x. v = PFloat x)"
  by (auto simp: TransactionAdmin_payment_amount_def split: option.splits sum.splits if_splits)

lemma payment_method_kind:
  "TransactionAdmin_payment_method obj = Inr v \<Longrightarrow> \<exists>s. v = PStr s"
  by (auto simp: TransactionAdmin_payment_method_def and_then_Inr_iff
      split: option.splits sum.splits if_splits)

lemma billing_cycle_kind:
  "PriceAdmin_billing_cycle obj = Inr v \<Longrightarrow> \<exists>s. v = PStr s"
  by (auto simp: PriceAdmin_billing_cycle_def and_then_Inr_iff split: option.splits if_splits)

lemma trial_period_kind:
  "PriceAdmin_trial_period obj = Inr v \<Longrightarrow> \<exists>s. v = PStr s"
  by (auto simp: PriceAdmin_trial_period_def and_then_Inr_iff split: option.splits if_splits)

lemma unit_price_kind:
  "PriceAdmin_unit_price obj = Inr v \<Longrightarrow> \<exists>s. v = PStr s"
  by (auto simp: PriceAdmin_unit_price_def and_then_Inr_iff split: option.splits if_splits)

lemma products_kind:
  "TransactionAdmin_products w obj = Inr v \<Longrightarrow> \<exists>s. v = PStr s"
  by (auto simp: TransactionAdmin_products_def and_then_Inr_iff split: option.splits if_splits)

lemma customer_email_kind:
  "AddressAdmin_customer_email obj = Inr v \<Longrightarrow> \<exists>s. v = PStr s"
  "TransactionAdmin_customer_email obj = Inr v \<Longrightarrow> \<exists>s. v = PStr s"
  by (auto simp: AddressAdmin_customer_email_def TransactionAdmin_customer_email_def
      split: option.splits)

lemma int_of_str_2500: "int_of_str ''2500'' = Inr 2500"
  by code_simp

lemma int_true_div_2500: "int_true_div 2500 100 = Inr (Finite 25 0)"
  by code_simp

section \<open>Properties\<close>

subsection \<open>Permission hooks and the choice of base classes\<close>

text \<open>
  Claim C2. \<open>AddressAdmin.has_change_permission\<close> returns True exactly when the
  setting \<open>ADMIN_READONLY\<close> is True, for every request and object; the hook of
  every other admin class returns True exactly when the setting is False. So the
  answer of AddressAdmin is always the opposite of the answer of each of the others.
\<close>

theorem change_permission_polarity:
  "(AddressAdmin_has_change_permission w request obj \<longleftrightarrow> ADMIN_READONLY w)
   \<and> (BusinessAdmin_has_change_permission w request obj \<longleftrightarrow> \<not> ADMIN_READONLY w)
   \<and> (ProductAdmin_has_change_permission w request obj \<longleftrightarrow> \<not> ADMIN_READONLY w)
   \<and> (PriceAdmin_has_change_permission w request obj \<longleftrightarrow> \<not> ADMIN_READONLY w)
   \<and> (SubscriptionAdmin_has_change_permission w request obj \<longleftrightarrow> \<not> ADMIN_READONLY w)
   \<and> (CustomerAdmin_has_change_permission w request obj \<longleftrightarrow> \<not> ADMIN_READONLY w)
   \<and> (TransactionAdmin_has_change_permission w request obj \<longleftrightarrow> \<not> ADMIN_READONLY w)
   \<and> AddressAdmin_has_change_permission w request obj
       \<noteq> BusinessAdmin_has_change_permission w request' obj'
   \<and> AddressAdmin_has_change_permission w request obj
       \<noteq> ProductAdmin_has_change_permission w request' obj'
   \<and> AddressAdmin_has_change_permission w request obj
       \<noteq> PriceAdmin_has_change_permission w request' obj'
   \<and> AddressAdmin_has_change_permission w request obj
       \<noteq> SubscriptionAdmin_has_change_permission w request' obj'
   \<and> AddressAdmin_has_change_permission w request obj
       \<noteq> CustomerAdmin_has_change_permission w request' obj'
   \<and> AddressAdmin_has_change_permission w request obj
       \<noteq> TransactionAdmin_has_change_permission w request' obj'"
  by (simp add: AddressAdmin_has_change_permission_def BusinessAdmin_has_change_permission_def
      ProductAdmin_has_change_permission_def PriceAdmin_has_change_permission_def
      SubscriptionAdmin_has_change_permission_def CustomerAdmin_has_change_permission_def
      TransactionAdmin_has_change_permission_def)

text \<open>
  Claim C8. The module imports \<open>ModelAdmin\<close>, \<open>StackedInline\<close> and
  \<open>TabularInline\<close> from unfold when the string \<open>unfold\<close> is an element of
  \<open>INSTALLED_APPS\<close> and from the framework's own admin otherwise; two states that
  agree on that membership give the same three classes, whatever else they hold.
\<close>

theorem admin_classes_follow_installed_apps:
  "(''unfold'' \<in> set (INSTALLED_APPS w) \<longrightarrow>
      import_admin_classes w =
        \<lparr>ModelAdmin = unfold_admin, StackedInline = unfold_admin, TabularInline = unfold_admin\<rparr>)
   \<and> (''unfold'' \<notin> set (INSTALLED_APPS w) \<longrightarrow>
      import_admin_classes w =
        \<lparr>ModelAdmin = django_contrib_admin, StackedInline = django_contrib_admin,
         TabularInline = django_contrib_admin\<rparr>)
   \<and> ((''unfold'' \<in> set (INSTALLED_APPS w)) = (''unfold'' \<in> set (INSTALLED_APPS w')) \<longrightarrow>
      import_admin_classes w = import_admin_classes w')"
  by (simp add: import_admin_classes_def)

theorem admin_classes_follow_installed_apps_witness:
  "import_admin_classes
     \<lparr>ADMIN_READONLY = True, INSTALLED_APPS = [''django.contrib.admin'', ''unfold''],
      Product_objects_filter_id_in = (\<lambda>ids. Inr [])\<rparr>
   = \<lparr>ModelAdmin = unfold_admin, StackedInline = unfold_admin, TabularInline = unfold_admin\<rparr>
   \<and> import_admin_classes
     \<lparr>ADMIN_READONLY = False, INSTALLED_APPS = [''django.contrib.admin'', ''unfold.contrib.forms''],
      Product_objects_filter_id_in = (\<lambda>ids. Inl DatabaseError)\<rparr>
   = \<lparr>ModelAdmin = django_contrib_admin, StackedInline = django_contrib_admin,
      TabularInline = django_contrib_admin\<rparr>
   \<and> import_admin_classes
     \<lparr>ADMIN_READONLY = True, INSTALLED_APPS = [''django.contrib.admin'', ''unfold''],
      Product_objects_filter_id_in = (\<lambda>ids. Inr [])\<rparr>
   = import_admin_classes
     \<lparr>ADMIN_READONLY = False, INSTALLED_APPS = [''unfold''],
      Product_objects_filter_id_in = (\<lambda>ids. Inl DatabaseError)\<rparr>"
proof -
  let ?w1 = "\<lparr>ADMIN_READONLY = True, INSTALLED_APPS = [''django.contrib.admin'', ''unfold''],
      Product_objects_filter_id_in = (\<lambda>ids. Inr [])\<rparr>"
  let ?w2 = "\<lparr>ADMIN_READONLY = False, INSTALLED_APPS = [''unfold''],
      Product_objects_filter_id_in = (\<lambda>ids. Inl DatabaseError)\<rparr>"
  let ?w3 = "\<lparr>ADMIN_READONLY = False,
      INSTALLED_APPS = [''django.contrib.admin'', ''unfold.contrib.forms''],
      Product_objects_filter_id_in = (\<lambda>ids. Inl DatabaseError)\<rparr>"
  have in1: "''unfold'' \<in> set (INSTALLED_APPS ?w1)" by simp
  have in2: "''unfold'' \<in> set (INSTALLED_APPS ?w2)" by simp
  have out3: "''unfold'' \<notin> set (INSTALLED_APPS ?w3)" by simp
  from admin_classes_follow_installed_apps [of ?w1 ?w2] in1
  have a: "import_admin_classes ?w1 =
      \<lparr>ModelAdmin = unfold_admin, StackedInline = unfold_admin, TabularInline = unfold_admin\<rparr>"
    by blast
  from admin_classes_follow_installed_apps [of ?w3 ?w3] out3
  have b: "import_admin_classes ?w3 =
      \<lparr>ModelAdmin = django_contrib_admin, StackedInline = django_contrib_admin,
       TabularInline = django_contrib_admin\<rparr>"
    by blast
  from admin_classes_follow_installed_apps [of ?w1 ?w2] in1 in2
  have c: "import_admin_classes ?w1 = import_admin_classes ?w2"
    by blast
  from a b c show ?thesis by blast
qed

subsection \<open>Calls without an object or without data\<close>

text \<open>
  Claim C4, evaluated on the code. Called with \<open>obj = None\<close>, or with an object
  whose \<open>data\<close> is \<open>None\<close>, the methods \<open>description\<close>, \<open>name\<close> and \<open>status\<close>
  of PriceAdmin and \<open>status\<close> of CustomerAdmin return \<open>None\<close>, which is not the
  empty string; \<open>status\<close> of AddressAdmin and of TransactionAdmin return the
  empty string on the same input.
\<close>

theorem fall_through_returns_None:
  "PriceAdmin_description None = Inr PNone
   \<and> PriceAdmin_name None = Inr PNone
   \<and> PriceAdmin_status None = Inr PNone
   \<and> CustomerAdmin_status None = Inr PNone
   \<and> PriceAdmin_description (Some \<lparr>data = PNone, customer = None\<rparr>) = Inr PNone
   \<and> CustomerAdmin_status (Some \<lparr>data = PNone, customer = None\<rparr>) = Inr PNone
   \<and> AddressAdmin_status None = Inr (PStr '''')
   \<and> TransactionAdmin_status None = Inr (PStr '''')
   \<and> PNone \<noteq> PStr ''''"
  by (simp add: PriceAdmin_description_def PriceAdmin_name_def PriceAdmin_status_def
      CustomerAdmin_status_def AddressAdmin_status_def TransactionAdmin_status_def)



subsection \<open>Effects\<close>


subsection \<open>Formatted values\<close>

text \<open>
  Claim C3. For every object whose \<open>data\<close> is
  \<open>{"details": {"totals": {"total": "1999"}}}\<close>, \<open>payment_amount\<close> returns the
  float 19.99: the binary64 value nearest to 1999/100, which is
  \<open>5626684784446013 / 2 ^ 48\<close> and prints as \<open>19.99\<close>.
\<close>

theorem payment_amount_1999:
  assumes "data ob = PDict [(''details'', PDict [(''totals'', PDict [(''total'', PStr ''1999'')])])]"
  shows "TransactionAdmin_payment_amount (Some ob) = Inr (PFloat (Finite 5626684784446013 48))
         \<and> float_repr (Finite 5626684784446013 48) = ''19.99''"
proof
  show "TransactionAdmin_payment_amount (Some ob) = Inr (PFloat (Finite 5626684784446013 48))"
    using assms
    by (simp add: TransactionAdmin_payment_amount_def int_of_str_1999 int_true_div_1999)
  show "float_repr (Finite 5626684784446013 48) = ''19.99''"
    by (rule float_repr_1999)
qed

theorem payment_amount_1999_witness:
  "TransactionAdmin_payment_amount
     (Some \<lparr>data = PDict [(''details'', PDict [(''totals'', PDict [(''total'', PStr ''1999'')])])],
            customer = Some \<lparr>email = ''jo@example.com''\<rparr>\<rparr>)
   = Inr (PFloat (Finite 5626684784446013 48))"
  using payment_amount_1999
    [of "\<lparr>data = PDict [(''details'', PDict [(''totals'', PDict [(''total'', PStr ''1999'')])])],
          customer = Some \<lparr>email = ''jo@example.com''\<rparr>\<rparr>"]
  by simp




subsection \<open>Missing keys and malformed values\<close>




subsection \<open>Types of the returned values\<close>

text \<open>
  Claim C5, amended. A display getter returns a string whenever its result is built
  by an f-string or \<open>join\<close> (\<open>billing_cycle\<close>, \<open>trial_period\<close>, \<open>unit_price\<close>,
  \<open>payment_method\<close>, \<open>products\<close>) or is the customer's email. \<open>payment_amount\<close>
  returns a float or the empty string. On a non-empty dict the getters
  \<open>postal_code\<close>, \<open>status\<close>, \<open>description\<close> and \<open>name\<close> return the value stored
  under their key as it is, of whatever JSON type, and the empty string when the key
  is absent; \<open>date_paid\<close> returns the stored \<open>captured_at\<close> of the first payment as
  it is.
\<close>

theorem kinds_of_returned_values:
  "(PriceAdmin_billing_cycle obj = Inr v \<longrightarrow> (\<exists>s. v = PStr s))
   \<and> (PriceAdmin_trial_period obj = Inr v \<longrightarrow> (\<exists>s. v = PStr s))
   \<and> (PriceAdmin_unit_price obj = Inr v \<longrightarrow> (\<exists>s. v = PStr s))
   \<and> (TransactionAdmin_payment_method obj = Inr v \<longrightarrow> (\<exists>s. v = PStr s))
   \<and> (TransactionAdmin_products w obj = Inr v \<longrightarrow> (\<exists>s. v = PStr s))
   \<and> (AddressAdmin_customer_email obj = Inr v \<longrightarrow> (\<exists>s. v = PStr s))
   \<and> (TransactionAdmin_customer_email obj = Inr v \<longrightarrow> (\<exists>s. v = PStr s))
   \<and> (TransactionAdmin_payment_amount obj = Inr v \<longrightarrow> v = PStr '''' \<or> (\<exists>x. v = PFloat x))
   \<and> (data ob = PDict d \<longrightarrow> d \<noteq> [] \<longrightarrow>
        AddressAdmin_postal_code (Some ob)
          = Inr (case map_of d ''postal_code'' of None \<Rightarrow> PStr '''' | Some x \<Rightarrow> x)
      \<and> AddressAdmin_status (Some ob)
          = Inr (case map_of d ''status'' of None \<Rightarrow> PStr '''' | Some x \<Rightarrow> x)
      \<and> PriceAdmin_description (Some ob)
          = Inr (case map_of d ''description'' of None \<Rightarrow> PStr '''' | Some x \<Rightarrow> x)
      \<and> PriceAdmin_name (Some ob)
          = Inr (case map_of d ''name'' of None \<Rightarrow> PStr '''' | Some x \<Rightarrow> x)
      \<and> PriceAdmin_status (Some ob)
          = Inr (case map_of d ''status'' of None \<Rightarrow> PStr '''' | Some x \<Rightarrow> x)
      \<and> CustomerAdmin_status (Some ob)
          = Inr (case map_of d ''status'' of None \<Rightarrow> PStr '''' | Some x \<Rightarrow> x)
      \<and> TransactionAdmin_status (Some ob)
          = Inr (case map_of d ''status'' of None \<Rightarrow> PStr '''' | Some x \<Rightarrow> x)
      \<and> (map_of d ''payments'' = Some (PList (PDict p # ps)) \<longrightarrow>
           map_of p ''captured_at'' = Some t \<longrightarrow>
           TransactionAdmin_date_paid (Some ob) = Inr t))"
proof (intro conjI impI)
  assume "PriceAdmin_billing_cycle obj = Inr v"
  then show "\<exists>s. v = PStr s" by (rule billing_cycle_kind)
next
  assume "PriceAdmin_trial_period obj = Inr v"
  then show "\<exists>s. v = PStr s" by (rule trial_period_kind)
next
  assume "PriceAdmin_unit_price obj = Inr v"
  then show "\<exists>s. v = PStr s" by (rule unit_price_kind)
next
  assume "TransactionAdmin_payment_method obj = Inr v"
  then show "\<exists>s. v = PStr s" by (rule payment_method_kind)
next
  assume "TransactionAdmin_products w obj = Inr v"
  then show "\<exists>s. v = PStr s" by (rule products_kind)
next
  assume "AddressAdmin_customer_email obj = Inr v"
  then show "\<exists>s. v = PStr s" by (rule customer_email_kind)
next
  assume "TransactionAdmin_customer_email obj = Inr v"
  then show "\<exists>s. v = PStr s" by (rule customer_email_kind)
next
  assume "TransactionAdmin_payment_amount obj = Inr v"
  then show "v = PStr '''' \<or> (\<exists>x. v = PFloat x)" by (rule payment_amount_kind)
next
  assume "data ob = PDict d" "d \<noteq> []"
  then show "AddressAdmin_postal_code (Some ob)
      = Inr (case map_of d ''postal_code'' of None \<Rightarrow> PStr '''' | Some x \<Rightarrow> x)"
    by (simp add: AddressAdmin_postal_code_def split: option.splits)
next
  assume "data ob = PDict d" "d \<noteq> []"
  then show "AddressAdmin_status (Some ob)
      = Inr (case map_of d ''status'' of None \<Rightarrow> PStr '''' | Some x \<Rightarrow> x)"
    by (simp add: AddressAdmin_status_def split: option.splits)
next
  assume "data ob = PDict d" "d \<noteq> []"
  then show "PriceAdmin_description (Some ob)
      = Inr (case map_of d ''description'' of None \<Rightarrow> PStr '''' | Some x \<Rightarrow> x)"
    by (simp add: PriceAdmin_description_def split: option.splits)
next
  assume "data ob = PDict d" "d \<noteq> []"
  then show "PriceAdmin_name (Some ob)
      = Inr (case map_of d ''name'' of None \<Rightarrow> PStr '''' | Some x \<Rightarrow> x)"
    by (simp add: PriceAdmin_name_def split: option.splits)
next
  assume "data ob = PDict d" "d \<noteq> []"
  then show "PriceAdmin_status (Some ob)
      = Inr (case map_of d ''status'' of None \<Rightarrow> PStr '''' | Some x \<Rightarrow> x)"
    by (simp add: PriceAdmin_status_def split: option.splits)
next
  assume "data ob = PDict d" "d \<noteq> []"
  then show "CustomerAdmin_status (Some ob)
      = Inr (case map_of d ''status'' of None \<Rightarrow> PStr '''' | Some x \<Rightarrow> x)"
    by (simp add: CustomerAdmin_status_def split: option.splits)
next
  assume "data ob = PDict d" "d \<noteq> []"
  then show "TransactionAdmin_status (Some ob)
      = Inr (case map_of d ''status'' of None \<Rightarrow> PStr '''' | Some x \<Rightarrow> x)"
    by (simp add: TransactionAdmin_status_def split: option.splits)
next
  assume "data ob = PDict d" "d \<noteq> []"
    "map_of d ''payments'' = Some (PList (PDict p # ps))" "map_of p ''captured_at'' = Some t"
  then show "TransactionAdmin_date_paid (Some ob) = Inr t"
    by (simp add: TransactionAdmin_date_paid_def py_index_def)
qed

theorem kinds_of_returned_values_witness:
  "AddressAdmin_status
     (Some \<lparr>data = PDict [(''status'', PInt 5),
                           (''payments'', PList [PDict [(''captured_at'', PNone)]])],
            customer = None\<rparr>)
     = Inr (PInt 5)
   \<and> TransactionAdmin_date_paid
     (Some \<lparr>data = PDict [(''status'', PInt 5),
                           (''payments'', PList [PDict [(''captured_at'', PNone)]])],
            customer = None\<rparr>)
     = Inr PNone
   \<and> AddressAdmin_postal_code
     (Some \<lparr>data = PDict [(''status'', PInt 5),
                           (''payments'', PList [PDict [(''captured_at'', PNone)]])],
            customer = None\<rparr>)
     = Inr (PStr '''')"
  using kinds_of_returned_values
    [of None PNone
        "\<lparr>ADMIN_READONLY = False, INSTALLED_APPS = [],
          Product_objects_filter_id_in = (\<lambda>ids. Inr [])\<rparr>"
        "\<lparr>data = PDict [(''status'', PInt 5),
                         (''payments'', PList [PDict [(''captured_at'', PNone)]])],
          customer = None\<rparr>"
        "[(''status'', PInt 5), (''payments'', PList [PDict [(''captured_at'', PNone)]])]"
        "[(''captured_at'', PNone)]" "[]" PNone]
  by simp

text \<open>
  The claim as stated fails: on \<open>{"details": {"totals": {"total": "2500"}}}\<close>
  \<open>payment_amount\<close> returns the float 25.0, which is not a string.
\<close>

theorem payment_amount_returns_float:
  "TransactionAdmin_payment_amount
     (Some \<lparr>data = PDict [(''details'', PDict [(''totals'', PDict [(''total'', PStr ''2500'')])])],
            customer = None\<rparr>)
   = Inr (PFloat (Finite 25 0))"
  by (simp add: TransactionAdmin_payment_amount_def int_of_str_2500 int_true_div_2500)

subsection \<open>Dependence on the state outside the object\<close>




end
